theory Spec2Isabelle
  imports Complex_Main "HOL-Library.Word" "HOL-Library.AList" "HOL-Library.Sublist"
begin

section \<open>Common values\<close>

text \<open>
  Python floats are modelled as \<^typ>\<open>real\<close>: the claims below concern lengths, positions,
  comparisons against thresholds and bounds, not rounding of the last bit. The one place
  where the last bit decides, the product behind the window size, takes the double
  multiplication as a parameter. Python's
  exceptions are values of the type \<open>error\<close>; a function that can raise returns
  \<open>error + 'a\<close> with \<open>Inl\<close> for the exception.
\<close>

datatype error = IndexError | KeyError | StructError | OSError | PyMongoError | ModelError

text \<open>\<open>str(n)\<close> for an integer: its decimal rendering.\<close>

definition digit_char :: "nat \<Rightarrow> char" where
  "digit_char d = ''0123456789'' ! d"

fun str_nat :: "nat \<Rightarrow> string" where
  "str_nat n = (if n < 10 then [digit_char n] else str_nat (n div 10) @ [digit_char (n mod 10)])"

declare str_nat.simps [simp del]

definition str_int :: "int \<Rightarrow> string" where
  "str_int i = (if i < 0 then CHR ''-'' # str_nat (nat (- i)) else str_nat (nat i))"

text \<open>\<open>int(x)\<close> on a float truncates towards zero.\<close>

definition py_int :: "real \<Rightarrow> int" where
  "py_int x = (if 0 \<le> x then \<lfloor>x\<rfloor> else \<lceil>x\<rceil>)"

section \<open>feature\_extractor.py\<close>

text \<open>
  A sample holds an acceleration and an angular-rate vector, each either a dictionary with
  the keys x, y, z or a sequence \<open>[x, y, z]\<close>. A dictionary is an association list; a
  missing key reads as 0 (\<open>v.get("x", 0)\<close>).
\<close>

datatype vec3 = VDict "(string \<times> real) list" | VSeq real real real

record sample =
  accel :: vec3
  gyro :: vec3

definition dict_get :: "(string \<times> real) list \<Rightarrow> string \<Rightarrow> real \<Rightarrow> real" where
  "dict_get d k dflt = (case map_of d k of None \<Rightarrow> dflt | Some v \<Rightarrow> v)"

definition get_vec3 :: "sample \<Rightarrow> (sample \<Rightarrow> vec3) \<Rightarrow> real \<times> real \<times> real" where
  "get_vec3 s key =
     (case key s of
        VDict v \<Rightarrow> (dict_get v ''x'' 0, dict_get v ''y'' 0, dict_get v ''z'' 0)
      | VSeq a b c \<Rightarrow> (a, b, c))"

text \<open>
  The numpy reductions used by \<open>sstats\<close>. \<open>np.mean\<close> is called on non-empty arrays only
  and \<open>np.std(v, ddof=1)\<close> on arrays of at least two elements; \<open>np.min\<close> and \<open>np.max\<close>
  take the non-empty array as its first element and the rest.
\<close>

definition np_mean :: "real list \<Rightarrow> real" where
  "np_mean v = sum_list v / real (length v)"

definition np_std :: "real list \<Rightarrow> nat \<Rightarrow> real" where
  "np_std v ddof =
     sqrt (sum_list (map (\<lambda>x. \<bar>x - np_mean v\<bar> ^ 2) v) / real (length v - ddof))"

definition np_min :: "real \<Rightarrow> real list \<Rightarrow> real" where
  "np_min x xs = fold min xs x"

definition np_max :: "real \<Rightarrow> real list \<Rightarrow> real" where
  "np_max x xs = fold max xs x"

fun sstats :: "real list \<Rightarrow> real list" where
  "sstats [] = [0, 0, 0, 0]"
| "sstats (x # xs) =
     [np_mean (x # xs),
      (if length (x # xs) > 1 then np_std (x # xs) 1 else 0),
      np_min x xs,
      np_max x xs]"

definition magnitude :: "real list \<Rightarrow> real list \<Rightarrow> real list \<Rightarrow> real list" where
  "magnitude xs ys zs =
     map (\<lambda>(x, y, z). sqrt (x ^ 2 + y ^ 2 + z ^ 2)) (zip xs (zip ys zs))"

definition feats :: "sample list \<Rightarrow> real list" where
  "feats samples =
     (let ax = map (\<lambda>s. fst (get_vec3 s accel)) samples;
          ay = map (\<lambda>s. fst (snd (get_vec3 s accel))) samples;
          az = map (\<lambda>s. snd (snd (get_vec3 s accel))) samples;
          gx = map (\<lambda>s. fst (get_vec3 s gyro)) samples;
          gy = map (\<lambda>s. fst (snd (get_vec3 s gyro))) samples;
          gz = map (\<lambda>s. snd (snd (get_vec3 s gyro))) samples;
          amag = magnitude ax ay az;
          gmag = magnitude gx gy gz
      in sstats ax @ sstats ay @ sstats az @ sstats amag @ sstats gmag)"

type_synonym window = "string \<rightharpoonup> sample list"

definition limb_slot :: "window \<Rightarrow> string \<Rightarrow> real list" where
  "limb_slot window limb =
     (case window limb of
        None \<Rightarrow> replicate 20 0
      | Some samples \<Rightarrow> if length samples > 0 then feats samples else replicate 20 0)"

definition compute_features :: "window \<Rightarrow> real list" where
  "compute_features window =
     foldl (\<lambda>vec limb. vec @ limb_slot window limb) [] [''wrist'', ''ankle'']"

section \<open>inference.py\<close>

text \<open>
  The fallback model's \<open>predict\<close> reads index 13 of each row (IndexError on a shorter
  row) and index 33 when the row has it.
\<close>

definition predict_row :: "real list \<Rightarrow> error + int" where
  "predict_row row =
     (if length row \<le> 13 then Inl IndexError
      else
        let wrist_am_std = row ! 13;
            ankle_am_std = (if length row > 33 then row ! 33 else wrist_am_std);
            m = max wrist_am_std ankle_am_std
        in if m < 0.15 then Inr 0
           else if m < 0.50 then Inr 1
           else Inr 2)"

fun fallback_predict :: "real list list \<Rightarrow> error + int list" where
  "fallback_predict [] = Inr []"
| "fallback_predict (row # X) =
     (case predict_row row of
        Inl e \<Rightarrow> Inl e
      | Inr y \<Rightarrow> (case fallback_predict X of Inl e \<Rightarrow> Inl e | Inr out \<Rightarrow> Inr (y # out)))"

definition proba_row :: "int \<Rightarrow> error + real list" where
  "proba_row p =
     (if p < -3 \<or> 3 \<le> p then Inl IndexError
      else Inr ([0.2, 0.2, 0.2][nat (if p < 0 then 3 + p else p) := 0.6]))"

fun proba_rows :: "int list \<Rightarrow> error + real list list" where
  "proba_rows [] = Inr []"
| "proba_rows (p # ps) =
     (case proba_row p of
        Inl e \<Rightarrow> Inl e
      | Inr arr \<Rightarrow> (case proba_rows ps of Inl e \<Rightarrow> Inl e | Inr out \<Rightarrow> Inr (arr # out)))"

definition fallback_predict_proba :: "real list list \<Rightarrow> error + real list list" where
  "fallback_predict_proba X =
     (case fallback_predict X of Inl e \<Rightarrow> Inl e | Inr preds \<Rightarrow> proba_rows preds)"

text \<open>
  The engine's model is the fallback or a trained artifact; the latter is opaque and is
  given by its two methods, each of which may raise.
\<close>

datatype model =
  FallbackModel
| TrainedModel "real list list \<Rightarrow> error + int list" "real list list \<Rightarrow> error + real list list"

fun model_predict :: "model \<Rightarrow> real list list \<Rightarrow> error + int list" where
  "model_predict FallbackModel X = fallback_predict X"
| "model_predict (TrainedModel p q) X = p X"

fun model_predict_proba :: "model \<Rightarrow> real list list \<Rightarrow> error + real list list" where
  "model_predict_proba FallbackModel X = fallback_predict_proba X"
| "model_predict_proba (TrainedModel p q) X = q X"

record engine =
  label_map :: "int \<rightharpoonup> string"
  model :: model

definition default_label_map :: "int \<rightharpoonup> string" where
  "default_label_map = [0 \<mapsto> ''Idle'', 1 \<mapsto> ''Walking'', 2 \<mapsto> ''Running'']"

definition predict_window :: "engine \<Rightarrow> window \<Rightarrow> error + (string \<times> real list option)" where
  "predict_window eng window_dict =
     (let X = [compute_features window_dict] in
      case model_predict (model eng) X of
        Inl e \<Rightarrow> Inl e
      | Inr [] \<Rightarrow> Inl IndexError
      | Inr (y # _) \<Rightarrow>
          let label = (case label_map eng y of Some l \<Rightarrow> l | None \<Rightarrow> str_int y);
              proba = (case model_predict_proba (model eng) X of
                         Inr (p # _) \<Rightarrow> Some p
                       | _ \<Rightarrow> None)
          in Inr (label, proba))"

section \<open>mongo\_upload.py\<close>

text \<open>
  A document is a dictionary from field names to values, kept in insertion order. A
  timestamp field holds the clock reading it was rendered from.
\<close>

datatype jvalue = JStr string | JNum real | JList "real list" | JStamp real

type_synonym doc = "(string \<times> jvalue) list"

text \<open>
  The world outside the process: the remote collections (by name, each the list of the
  documents inserted so far), the directories of the file system (by path, each an
  association list from file name to the file's lines, one document per line), and three
  scripts that fix what the environment will answer: the outcome of each coming
  \<open>insert_many\<close> call, whether each coming backlog write succeeds, and each coming
  reading of the clock. A call reads position 0 of its script and shifts the script.

  \<open>insert_many(docs, ordered=False)\<close> either stores every document, or raises having
  stored none, or raises having stored the documents selected by a mask.

  A file's lines are kept as the documents they encode: \<open>json.dumps\<close> on writing and
  \<open>json.loads\<close> on reading are taken to be inverse on the pipeline's documents. Every
  directory exists, so \<open>_ensure_dir\<close> has nothing to do; a file system that refuses is
  the disk script answering \<open>False\<close>.
\<close>

datatype outcome = Accept | Reject | Partial "bool list"

record world =
  remote :: "string \<Rightarrow> doc list"
  dirs :: "string \<Rightarrow> (string \<times> doc list) list"
  net :: "nat \<Rightarrow> outcome"
  disk :: "nat \<Rightarrow> bool"
  clock :: "nat \<Rightarrow> real"

definition read_clock :: "world \<Rightarrow> real \<times> world" where
  "read_clock w = (clock w 0, w\<lparr>clock := (\<lambda>n. clock w (Suc n))\<rparr>)"

record sink =
  col :: string
  backlog_dir :: string

definition insert_many :: "string \<Rightarrow> doc list \<Rightarrow> world \<Rightarrow> error option \<times> world" where
  "insert_many c docs w =
     (let w' = w\<lparr>net := (\<lambda>n. net w (Suc n))\<rparr> in
      case net w 0 of
        Accept \<Rightarrow> (None, w'\<lparr>remote := (remote w)(c := remote w c @ docs)\<rparr>)
      | Reject \<Rightarrow> (Some PyMongoError, w')
      | Partial sel \<Rightarrow>
          (Some PyMongoError,
           w'\<lparr>remote := (remote w)(c := remote w c @ map fst (filter snd (zip docs sel)))\<rparr>))"

definition backlog_name :: "int \<Rightarrow> string" where
  "backlog_name t = ''backlog_'' @ str_int t @ ''.ndjson''"

definition read_file :: "world \<Rightarrow> string \<Rightarrow> string \<Rightarrow> doc list option" where
  "read_file w d name = map_of (dirs w d) name"

text \<open>
  \<open>open(fname, "a")\<close> followed by one written line per document: the lines are appended
  to the file, which is created when it does not exist. A failing write raises and leaves
  the directory as it was.
\<close>

definition append_lines :: "string \<Rightarrow> string \<Rightarrow> doc list \<Rightarrow> world \<Rightarrow> error option \<times> world" where
  "append_lines d name ls w =
     (let w' = w\<lparr>disk := (\<lambda>n. disk w (Suc n))\<rparr>;
          old = (case read_file w d name of None \<Rightarrow> [] | Some c \<Rightarrow> c)
      in if disk w 0
         then (None, w'\<lparr>dirs := (dirs w)(d := AList.update name (old @ ls) (dirs w d))\<rparr>)
         else (Some OSError, w'))"

definition unlink :: "string \<Rightarrow> string \<Rightarrow> world \<Rightarrow> world" where
  "unlink d name w = w\<lparr>dirs := (dirs w)(d := AList.delete name (dirs w d))\<rparr>"

definition insert_batch :: "sink \<Rightarrow> doc list \<Rightarrow> world \<Rightarrow> error option \<times> world" where
  "insert_batch s docs w =
     (if docs = [] then (None, w)
      else
        case insert_many (col s) docs w of
          (None, w1) \<Rightarrow> (None, w1)
        | (Some e, w1) \<Rightarrow>
            let (t, w2) = read_clock w1
            in append_lines (backlog_dir s) (backlog_name (py_int t)) docs w2)"

text \<open>The pattern \<open>backlog_*.ndjson\<close> on a file name.\<close>

definition glob_backlog :: "string \<Rightarrow> bool" where
  "glob_backlog name =
     (prefix ''backlog_'' name \<and> suffix ''.ndjson'' name \<and> 15 \<le> length name)"

text \<open>
  One iteration of the loop of \<open>flush_backlog\<close>: a file that cannot be opened and a
  write that raises are both swallowed by the \<open>except\<close>, and the file is unlinked only
  on the path that did not raise.
\<close>

definition replay_file :: "sink \<Rightarrow> string \<Rightarrow> world \<Rightarrow> world" where
  "replay_file s p w =
     (case read_file w (backlog_dir s) p of
        None \<Rightarrow> w
      | Some docs \<Rightarrow>
          if docs \<noteq> [] then
            (case insert_many (col s) docs w of
               (None, w1) \<Rightarrow> unlink (backlog_dir s) p w1
             | (Some e, w1) \<Rightarrow> w1)
          else unlink (backlog_dir s) p w)"

definition backlog_files :: "sink \<Rightarrow> world \<Rightarrow> string list" where
  "backlog_files s w = filter glob_backlog (map fst (dirs w (backlog_dir s)))"

definition flush_backlog :: "sink \<Rightarrow> world \<Rightarrow> world" where
  "flush_backlog s w = foldl (\<lambda>w' p. replay_file s p w') w (backlog_files s w)"

section \<open>pi\_central.py\<close>

text \<open>
  The settings read from the environment, the two optional sinks and the engine. The
  regular-expression scan \<open>_extract_floats\<close> is a parameter, and so is the arithmetic of
  \<open>WINDOW_SECONDS * FS_HZ\<close>: \<open>float_mul\<close> gives the double that the multiplication of
  the float by the integer returns, which is the product rounded to a double and not the
  product itself (0.29 times 100 comes out just below 29).
\<close>

record config =
  fs_hz :: int
  window_seconds :: real
  batch_upload_seconds :: int
  save_raw :: int
  pred_upload_eager :: bool
  sensor_sink :: "sink option"
  pred_sink :: "sink option"
  eng :: engine
  extract_floats :: "string \<Rightarrow> real list"
  float_mul :: "real \<Rightarrow> int \<Rightarrow> real"

definition window_size :: "config \<Rightarrow> int" where
  "window_size cfg = max 1 (py_int (float_mul cfg (window_seconds cfg) (fs_hz cfg)))"

text \<open>The module's global variables, and the world they act on.\<close>

record state =
  buffer :: "string \<rightharpoonup> sample list"
  sensor_batch :: "doc list"
  pred_batch :: "doc list"
  last_upload :: real
  wrist_mean :: "real option"
  wrist_std :: "real option"
  wrist_t :: real
  ankle_acc_mag :: "real option"
  ankle_intensity :: "real option"
  ankle_t :: real
  last_raw_ts :: "string \<rightharpoonup> real"
  last_dbg :: real
  world :: world

text \<open>The globals as the module sets them when it is loaded.\<close>

definition initial_state :: "world \<Rightarrow> state" where
  "initial_state w =
     (let (t, w1) = read_clock w in
      \<lparr>buffer = [''wrist'' \<mapsto> [], ''ankle'' \<mapsto> []],
       sensor_batch = [], pred_batch = [], last_upload = t,
       wrist_mean = None, wrist_std = None, wrist_t = 0,
       ankle_acc_mag = None, ankle_intensity = None, ankle_t = 0,
       last_raw_ts = [''wrist'' \<mapsto> 0, ''ankle'' \<mapsto> 0], last_dbg = 0,
       world = w1\<rparr>)"

text \<open>\<open>xs[i:]\<close> for a possibly negative \<open>i\<close>.\<close>

definition py_slice_from :: "int \<Rightarrow> 'a list \<Rightarrow> 'a list" where
  "py_slice_from i xs = (if i < 0 then drop (nat (int (length xs) + i)) xs else drop (nat i) xs)"

definition to_vec3_dict :: "vec3 \<Rightarrow> vec3" where
  "to_vec3_dict v =
     (case v of
        VDict d \<Rightarrow>
          VDict [(''x'', dict_get d ''x'' 0), (''y'', dict_get d ''y'' 0), (''z'', dict_get d ''z'' 0)]
      | VSeq a b c \<Rightarrow> VDict [(''x'', a), (''y'', b), (''z'', c)])"

record raw_sample = sample +
  device :: "string option"

definition axes :: "vec3 \<Rightarrow> real list" where
  "axes v = (case v of VDict d \<Rightarrow> map (\<lambda>k. dict_get d k 0) [''x'', ''y'', ''z''] | VSeq a b c \<Rightarrow> [a, b, c])"

definition sample_limb :: "raw_sample \<Rightarrow> string" where
  "sample_limb smp = (case device smp of None \<Rightarrow> ''wrist'' | Some d \<Rightarrow> d)"

definition normalized :: "raw_sample \<Rightarrow> sample" where
  "normalized smp = \<lparr>accel = to_vec3_dict (accel smp), gyro = to_vec3_dict (gyro smp)\<rparr>"

definition add_sample :: "config \<Rightarrow> raw_sample \<Rightarrow> state \<Rightarrow> state" where
  "add_sample cfg smp st =
     (let limb = sample_limb smp in
      case buffer st limb of
        None \<Rightarrow> st
      | Some b \<Rightarrow>
          let norm = normalized smp;
              b1 = b @ [norm];
              (t, w1) = read_clock (world st);
              max_keep = window_size cfg * 3;
              b2 = (if int (length b1) > max_keep then py_slice_from (- max_keep) b1 else b1);
              st1 = st\<lparr>buffer := (buffer st)(limb \<mapsto> b2),
                       last_raw_ts := (last_raw_ts st)(limb \<mapsto> t),
                       world := w1\<rparr>
          in if save_raw cfg \<noteq> 0 then
               let (ts, w2) = read_clock w1
               in st1\<lparr>sensor_batch := sensor_batch st @
                         [[(''type'', JStr ''raw''), (''timestamp'', JStamp ts),
                           (''device'', JStr limb), (''accel'', JList (axes (accel norm))),
                           (''gyro'', JList (axes (gyro norm)))]],
                       world := w2\<rparr>
             else st1)"

text \<open>
  The \<open>try\<close> block that \<open>maybe_upload\<close> and the eager path of \<open>maybe_predict\<close> wrap
  around a sink: \<open>insert_batch\<close>, then \<open>flush_backlog\<close>, then the batch is emptied; an
  exception on the way keeps the batch.
\<close>

definition flush_sink :: "sink \<Rightarrow> doc list \<Rightarrow> world \<Rightarrow> doc list \<times> world" where
  "flush_sink s batch w =
     (case insert_batch s batch w of
        (Some e, w1) \<Rightarrow> (batch, w1)
      | (None, w1) \<Rightarrow> ([], flush_backlog s w1))"

definition getitem :: "('k \<rightharpoonup> 'v) \<Rightarrow> 'k \<Rightarrow> error + 'v" where
  "getitem m k = (case m k of None \<Rightarrow> Inl KeyError | Some v \<Rightarrow> Inr v)"

definition bind_err :: "error + 'a \<Rightarrow> ('a \<Rightarrow> error + 'b) \<Rightarrow> error + 'b" where
  "bind_err m f = (case m of Inl e \<Rightarrow> Inl e | Inr x \<Rightarrow> f x)"

text \<open>
  The tail of \<open>maybe_predict\<close>: the prediction document is queued and, with the eager
  toggle and a prediction sink, flushed at once.
\<close>

definition queue_prediction :: "config \<Rightarrow> string \<Rightarrow> real list option \<Rightarrow> state \<Rightarrow> state" where
  "queue_prediction cfg label proba st =
     (let (ts, w1) = read_clock (world st);
          doc = [(''type'', JStr ''prediction''), (''timestamp'', JStamp ts), (''label'', JStr label)]
                @ (case proba of None \<Rightarrow> [] | Some p \<Rightarrow> [(''probs'', JList p)]);
          pb = pred_batch st @ [doc]
      in case pred_sink cfg of
           Some s \<Rightarrow>
             if pred_upload_eager cfg then
               let (pb', w2) = flush_sink s pb w1 in st\<lparr>pred_batch := pb', world := w2\<rparr>
             else st\<lparr>pred_batch := pb, world := w1\<rparr>
         | None \<Rightarrow> st\<lparr>pred_batch := pb, world := w1\<rparr>)"

text \<open>
  \<open>maybe_predict\<close>. The clock readings that feed only a printed line are left out. The
  heartbeat line reads both buffers and both raw timestamps, so it raises KeyError when
  one of them is missing.
\<close>

definition maybe_predict :: "config \<Rightarrow> state \<Rightarrow> error + state" where
  "maybe_predict cfg st =
     (let (now, w1) = read_clock (world st);
          due = (now - last_dbg st \<ge> 1.0);
          st1 = st\<lparr>last_dbg := (if due then now else last_dbg st), world := w1\<rparr>
      in
      if due \<and> (buffer st ''wrist'' = None \<or> buffer st ''ankle'' = None
                \<or> last_raw_ts st ''wrist'' = None \<or> last_raw_ts st ''ankle'' = None)
      then Inl KeyError
      else
        bind_err (getitem (buffer st) ''wrist'') (\<lambda>bw.
        bind_err (getitem (buffer st) ''ankle'') (\<lambda>ba.
          let enough_wrist = (int (length bw) \<ge> window_size cfg);
              enough_ankle = (int (length ba) \<ge> window_size cfg)
          in
          if enough_wrist \<or> enough_ankle then
            let win0 = (if enough_wrist
                        then [''wrist'' \<mapsto> py_slice_from (- window_size cfg) bw]
                        else Map.empty);
                win = (if enough_ankle
                       then win0(''ankle'' \<mapsto> py_slice_from (- window_size cfg) ba)
                       else win0)
            in bind_err (predict_window (eng cfg) win)
                 (\<lambda>(label, proba). Inr (queue_prediction cfg label proba st1))
          else
            bind_err (getitem (last_raw_ts st) ''wrist'') (\<lambda>tw.
            bind_err (getitem (last_raw_ts st) ''ankle'') (\<lambda>ta.
              let raw_stale = (now - max tw ta \<ge> 1.0);
                  have_wrist = (wrist_std st \<noteq> None);
                  have_ankle = (ankle_intensity st \<noteq> None)
              in
              if raw_stale \<and> (have_wrist \<or> have_ankle) then
                let std_w = (case wrist_std st of None \<Rightarrow> 0 | Some v \<Rightarrow> v);
                    std_a = (case ankle_intensity st of None \<Rightarrow> 0 | Some v \<Rightarrow> v);
                    m = max std_w std_a;
                    label = (if m < 0.15 then ''Idle''
                             else if m < 0.50 then ''Walking''
                             else ''Running'')
                in Inr (queue_prediction cfg label None st1)
              else Inr st1)))))"

text \<open>
  \<open>maybe_upload\<close>: the interval gate, the sensor block, the prediction block, and the
  timer bumped whatever happened.
\<close>

definition upload_block :: "sink option \<Rightarrow> doc list \<Rightarrow> world \<Rightarrow> doc list \<times> world" where
  "upload_block snk batch w =
     (case snk of
        None \<Rightarrow> (batch, w)
      | Some s \<Rightarrow> if batch \<noteq> [] then flush_sink s batch w else (batch, w))"

definition maybe_upload :: "config \<Rightarrow> state \<Rightarrow> state" where
  "maybe_upload cfg st =
     (let (t, w1) = read_clock (world st) in
      if t - last_upload st < real_of_int (batch_upload_seconds cfg) then st\<lparr>world := w1\<rparr>
      else
        let (sb, w2) = upload_block (sensor_sink cfg) (sensor_batch st) w1;
            (pb, w3) = upload_block (pred_sink cfg) (pred_batch st) w2;
            (t', w4) = read_clock w3
        in st\<lparr>sensor_batch := sb, pred_batch := pb, last_upload := t', world := w4\<rparr>)"

subsection \<open>The consumer\<close>

type_synonym byte = "8 word"

text \<open>\<open>struct.unpack("<6h", payload)\<close>: six signed little-endian 16-bit integers.\<close>

definition le_i16 :: "byte \<Rightarrow> byte \<Rightarrow> int" where
  "le_i16 lo hi = sint (word_cat hi lo :: 16 word)"

fun le_i16s :: "byte list \<Rightarrow> int list" where
  "le_i16s (lo # hi # bs) = le_i16 lo hi # le_i16s bs"
| "le_i16s bs = []"

definition unpack_6h :: "byte list \<Rightarrow> error + int list" where
  "unpack_6h payload = (if length payload \<noteq> 12 then Inl StructError else Inr (le_i16s payload))"

text \<open>The consumer's decoding of a raw payload: unpack, then divide each value by 1000.\<close>

definition sample_of_raw :: "string \<Rightarrow> int list \<Rightarrow> raw_sample" where
  "sample_of_raw node v =
     \<lparr>accel = VSeq (real_of_int (v ! 0) / 1000) (real_of_int (v ! 1) / 1000)
                   (real_of_int (v ! 2) / 1000),
      gyro = VSeq (real_of_int (v ! 3) / 1000) (real_of_int (v ! 4) / 1000)
                  (real_of_int (v ! 5) / 1000),
      device = Some node\<rparr>"

definition decode_raw :: "string \<Rightarrow> byte list \<Rightarrow> error + raw_sample" where
  "decode_raw node payload = bind_err (unpack_6h payload) (\<lambda>v. Inr (sample_of_raw node v))"

text \<open>
  \<open>_sanitize_label_bytes\<close>. Decoding as UTF-8 with errors ignored keeps every byte below
  128 as its own character and yields nothing printable from the others; with NUL, CR, LF
  and whatever is not printable ASCII filtered out, the bytes from 32 to 126 remain, and
  \<open>strip\<close> then has only spaces to remove.
\<close>

definition printable :: "byte \<Rightarrow> bool" where
  "printable b = (32 \<le> unat b \<and> unat b < 127)"

definition strip :: "string \<Rightarrow> string" where
  "strip s = rev (dropWhile (\<lambda>c. c = CHR '' '') (rev (dropWhile (\<lambda>c. c = CHR '' '') s)))"

definition sanitize_label_bytes :: "byte list \<Rightarrow> string" where
  "sanitize_label_bytes b = strip (map (\<lambda>x. char_of (unat x)) (filter printable b))"

datatype event = Timeout | Packet string string "byte list"

definition handle_label :: "config \<Rightarrow> string \<Rightarrow> string \<Rightarrow> state \<Rightarrow> state" where
  "handle_label cfg node s st =
     (let (now, w1) = read_clock (world st);
          nums = extract_floats cfg s
      in
      if prefix ''SPD'' s then
        (if length nums \<ge> 2 then
           let acc_mag = nums ! 0; intensity = nums ! 1; (ts, w2) = read_clock w1
           in st\<lparr>ankle_acc_mag := Some acc_mag, ankle_intensity := Some intensity, ankle_t := now,
                  sensor_batch := sensor_batch st @
                    [[(''type'', JStr ''speed''), (''timestamp'', JStamp ts), (''device'', JStr node),
                      (''acc_mag_g'', JNum acc_mag), (''intensity'', JNum intensity), (''raw'', JStr s)]],
                  world := w2\<rparr>
         else st\<lparr>world := w1\<rparr>)
      else
        let label = strip (takeWhile (\<lambda>c. c \<noteq> CHR '','') s);
            mean = (if length nums \<ge> 1 then Some (nums ! 0) else None);
            std = (if length nums \<ge> 2 then Some (nums ! 1) else None);
            st1 = (if mean \<noteq> None \<or> std \<noteq> None
                   then st\<lparr>wrist_mean := mean, wrist_std := std, wrist_t := now\<rparr> else st);
            (ts, w2) = read_clock w1;
            doc = [(''type'', JStr ''label''), (''timestamp'', JStamp ts), (''device'', JStr node),
                   (''label'', JStr label), (''raw'', JStr s)]
                  @ (case mean of None \<Rightarrow> [] | Some v \<Rightarrow> [(''mean'', JNum v)])
                  @ (case std of None \<Rightarrow> [] | Some v \<Rightarrow> [(''std'', JNum v)])
        in st1\<lparr>sensor_batch := sensor_batch st @ [doc], world := w2\<rparr>)"

definition tick :: "config \<Rightarrow> state \<Rightarrow> error + state" where
  "tick cfg st = bind_err (maybe_predict cfg st) (\<lambda>st'. Inr (maybe_upload cfg st'))"

text \<open>
  One iteration of the consumer's loop on what the queue delivered. \<open>continue\<close> returns
  the state at once, without the tick.
\<close>

definition consumer_step :: "config \<Rightarrow> event \<Rightarrow> state \<Rightarrow> error + state" where
  "consumer_step cfg ev st =
     (case ev of
        Timeout \<Rightarrow> tick cfg st
      | Packet node stream payload \<Rightarrow>
          if stream = ''raw'' then
            (if length payload \<noteq> 12 then Inr st
             else
               bind_err (decode_raw node payload) (\<lambda>smp.
                 let st1 = add_sample cfg smp st;
                     (t, w1) = read_clock (world st1)
                 in tick cfg (st1\<lparr>last_raw_ts := (last_raw_ts st1)(node \<mapsto> t), world := w1\<rparr>)))
          else if stream = ''label'' then
            (let s = sanitize_label_bytes payload in
             if s = [] then Inr st
             else tick cfg (handle_label cfg node s st))
          else tick cfg st)"

fun consumer :: "config \<Rightarrow> event list \<Rightarrow> state \<Rightarrow> error + state" where
  "consumer cfg [] st = Inr st"
| "consumer cfg (ev # evs) st =
     (case consumer_step cfg ev st of Inl e \<Rightarrow> Inl e | Inr st' \<Rightarrow> consumer cfg evs st')"

subsection \<open>ble\_receiver.py: the raw notification callback\<close>

definition cb_raw :: "string \<Rightarrow> byte list \<Rightarrow> event list \<Rightarrow> event list" where
  "cb_raw node data queue =
     (if data = [] \<or> length data \<noteq> 12 then queue else queue @ [Packet node ''raw'' data])"

subsection \<open>The sending side of the raw characteristic\<close>

text \<open>
  Modelled from the spec: the encoder of the raw-sample characteristic runs on the
  wearable node and is not among the sources. The spec gives the wire format: six signed
  little-endian 16-bit integers, acceleration x, y, z then angular rate x, y, z, each the
  physical value times 1000. The value times 1000 is cut to an integer towards zero.
\<close>

definition encode_axis :: "real \<Rightarrow> byte list" where
  "encode_axis v =
     (let w = (word_of_int (py_int (v * 1000)) :: 16 word)
      in [ucast w, ucast (drop_bit 8 w)])"

definition encode_sample :: "real list \<Rightarrow> byte list" where
  "encode_sample vs = concat (map encode_axis vs)"

section \<open>Concrete inputs\<close>

text \<open>
  A small configuration (one sample per second, windows of one second, hence a window of
  one sample and a retention cap of three) with both sinks on the default backlog
  directory and the fallback model, and samples to fill buffers with.
\<close>

definition sensor_store :: sink where
  "sensor_store = \<lparr>col = ''SensorData'', backlog_dir = ''data/backlog''\<rparr>"

definition pred_store :: sink where
  "pred_store = \<lparr>col = ''Predictions'', backlog_dir = ''data/backlog''\<rparr>"

text \<open>
  The double multiplication on the settings used below: 1.999 times 100 and 0.29 times
  100 give the doubles written out here, the second one unit in the last place below 29;
  the other products used are doubles themselves and come out exact.
\<close>

definition double_product :: "real \<Rightarrow> int \<Rightarrow> real" where
  "double_product a b =
     (if a = 1.999 \<and> b = 100 then 7033355980557517 / 2 ^ 45
      else if a = 0.29 \<and> b = 100 then 29 - 1 / 2 ^ 48
      else a * real_of_int b)"

definition small_config :: config where
  "small_config =
     \<lparr>fs_hz = 1, window_seconds = 1, batch_upload_seconds = 5, save_raw = 0,
      pred_upload_eager = False,
      sensor_sink = Some sensor_store, pred_sink = Some pred_store,
      eng = \<lparr>label_map = default_label_map, model = FallbackModel\<rparr>,
      extract_floats = (\<lambda>s. []), float_mul = double_product\<rparr>"

definition still :: "real \<Rightarrow> sample" where
  "still g = \<lparr>accel = VDict [(''x'', 0), (''y'', 0), (''z'', g)],
              gyro = VDict [(''x'', 0), (''y'', 0), (''z'', 0)]\<rparr>"

definition quiet_world :: world where
  "quiet_world =
     \<lparr>remote = (\<lambda>c. []), dirs = (\<lambda>d. []), net = (\<lambda>n. Accept), disk = (\<lambda>n. True),
      clock = (\<lambda>n. 100)\<rparr>"

definition full_wrist :: state where
  "full_wrist =
     \<lparr>buffer = [''wrist'' \<mapsto> [still 1, still 2, still 3], ''ankle'' \<mapsto> []],
      sensor_batch = [], pred_batch = [], last_upload = 100,
      wrist_mean = None, wrist_std = None, wrist_t = 0,
      ankle_acc_mag = None, ankle_intensity = None, ankle_t = 0,
      last_raw_ts = [''wrist'' \<mapsto> 0, ''ankle'' \<mapsto> 0], last_dbg = 0,
      world = quiet_world\<rparr>"

definition odd_window_config :: config where
  "odd_window_config = small_config\<lparr>fs_hz := 100, window_seconds := 1.999\<rparr>"

definition drift_config :: config where
  "drift_config = small_config\<lparr>fs_hz := 100, window_seconds := 0.29\<rparr>"

definition feature_row :: "real \<Rightarrow> real \<Rightarrow> real list" where
  "feature_row w a = replicate 13 0 @ [w] @ replicate 19 0 @ [a] @ replicate 6 0"

definition wrist_sample :: "real \<Rightarrow> raw_sample" where
  "wrist_sample g = \<lparr>accel = VSeq 0 0 g, gyro = VSeq 0 0 0, device = Some ''wrist''\<rparr>"

text \<open>What a value becomes on its way through the wire format.\<close>

definition requantized :: "real \<Rightarrow> real" where
  "requantized v = real_of_int (py_int (v * 1000)) / 1000"

text \<open>
  An outage: every remote write is refused, the disk works, and the clock stays within the
  second 105, five seconds after the last upload; each sink has one document pending.
\<close>

definition doc_a :: doc where
  "doc_a = [(''type'', JStr ''label''), (''device'', JStr ''wrist''), (''label'', JStr ''WALK'')]"

definition doc_b :: doc where
  "doc_b = [(''type'', JStr ''prediction''), (''label'', JStr ''Walking'')]"

definition outage_world :: world where
  "outage_world = quiet_world\<lparr>net := (\<lambda>n. Reject), clock := (\<lambda>n. 105)\<rparr>"

definition outage_state :: state where
  "outage_state =
     full_wrist\<lparr>sensor_batch := [doc_a], pred_batch := [doc_b], last_upload := 100,
                 world := outage_world\<rparr>"

text \<open>
  A backlog directory with two backlog files and one other file, and a remote store that
  fails the first write after storing it in part and accepts the writes after it.
\<close>

definition backlog_world :: world where
  "backlog_world =
     quiet_world\<lparr>dirs := (\<lambda>d. if d = ''data/backlog''
                               then [(''backlog_100.ndjson'', [doc_a, doc_a]),
                                     (''notes.txt'', [doc_b]),
                                     (''backlog_101.ndjson'', [doc_b])]
                               else []),
                  net := (\<lambda>n. if n = 0 then Partial [True, False] else Accept)\<rparr>"

text \<open>The outage, met with a backlog file of the current second already in the directory.\<close>

definition clash_world :: world where
  "clash_world =
     outage_world\<lparr>dirs := (\<lambda>d. if d = ''data/backlog''
                                then [(''backlog_105.ndjson'', [doc_a])] else [])\<rparr>"

text \<open>An outage that ends after two refused writes, and an outage with a failing disk.\<close>

definition recovering_world :: world where
  "recovering_world = outage_world\<lparr>net := (\<lambda>n. if n < 2 then Reject else Accept)\<rparr>"

definition dead_disk_world :: world where
  "dead_disk_world = outage_world\<lparr>disk := (\<lambda>n. False)\<rparr>"

text \<open>A well-formed raw payload: acceleration (0, 0, 1.000), no rotation.\<close>

definition good_payload :: "byte list" where
  "good_payload = [0, 0, 0, 0, 232, 3, 0, 0, 0, 0, 0, 0]"

section \<open>What replaying the backlog preserves\<close>

text \<open>
  Relative to a world \<open>w\<close> at the start of a replay, a file with the contents \<open>docs\<close>
  is, in a later world \<open>w'\<close>, either still there with these contents, or gone with its
  contents among what the sink's collection has received since.
\<close>

definition kept_or_delivered :: "sink \<Rightarrow> world \<Rightarrow> world \<Rightarrow> string \<Rightarrow> doc list \<Rightarrow> bool" where
  "kept_or_delivered s w w' p docs =
     (read_file w' (backlog_dir s) p = Some docs
        \<and> (\<exists>ys. remote w' (col s) = remote w (col s) @ ys)
      \<or> read_file w' (backlog_dir s) p = None
        \<and> (\<exists>ys zs. remote w' (col s) = remote w (col s) @ ys @ docs @ zs))"

section \<open>Properties of the feature extractor\<close>

lemma length_sstats: "length (sstats v) = 4"
  by (cases v) simp_all

lemma length_feats: "length (feats samples) = 20"
  by (simp add: feats_def Let_def length_sstats)

lemma length_limb_slot: "length (limb_slot w limb) = 20"
  by (simp add: limb_slot_def length_feats split: option.split)

lemma compute_features_slots:
  "compute_features w = limb_slot w ''wrist'' @ limb_slot w ''ankle''"
  by (simp add: compute_features_def)

lemma limb_slot_absent:
  "w limb = None \<or> w limb = Some [] \<Longrightarrow> limb_slot w limb = replicate 20 0"
  by (auto simp: limb_slot_def)

text \<open>
  C10. On a single-element series the summary statistics are the element itself for the
  mean, the minimum and the maximum, and 0 for the sample standard deviation.
\<close>

theorem sstats_single: "sstats [x] = [x, 0, x, x]"
  by (simp add: np_mean_def np_min_def np_max_def)

text \<open>
  C1. A window in which some device has a sample yields 40 features, and the 20 positions
  of a device that is absent, or present with no sample, are all 0: positions 0 to 19 for
  the wrist, 20 to 39 for the ankle.
\<close>

theorem compute_features_shape:
  assumes "\<exists>limb s ss. w limb = Some (s # ss)"
  shows "length (compute_features w) = 40
       \<and> ((w ''wrist'' = None \<or> w ''wrist'' = Some []) \<longrightarrow>
            take 20 (compute_features w) = replicate 20 0)
       \<and> ((w ''ankle'' = None \<or> w ''ankle'' = Some []) \<longrightarrow>
            drop 20 (compute_features w) = replicate 20 0)"
  by (simp add: compute_features_slots length_limb_slot limb_slot_absent)

theorem compute_features_shape_witness:
  "(\<exists>limb s ss. [''wrist'' \<mapsto> [still 1]] limb = Some (s # ss))
   \<and> length (compute_features [''wrist'' \<mapsto> [still 1]]) = 40
   \<and> drop 20 (compute_features [''wrist'' \<mapsto> [still 1]]) = replicate 20 0"
proof -
  let ?w = "[''wrist'' \<mapsto> [still 1]] :: window"
  have h: "\<exists>limb s ss. ?w limb = Some (s # ss)"
    by (rule exI [of _ "''wrist''"]) simp
  have a: "?w ''ankle'' = None \<or> ?w ''ankle'' = Some []"
    by simp
  from compute_features_shape [OF h] a h show ?thesis
    by blast
qed

section \<open>Properties of the fallback classifier\<close>

text \<open>
  C2. On a feature row (any row that reaches index 33) the fallback model takes the greater
  of the entries 13 and 33 and answers the class whose label is Idle below 0.15, Walking
  from 0.15 to below 0.50, and Running from 0.50 on.
\<close>

theorem fallback_predict_thresholds:
  assumes "length row > 33"
  shows "\<exists>y. fallback_predict [row] = Inr [y]
           \<and> default_label_map y =
               Some (if max (row ! 13) (row ! 33) < 0.15 then ''Idle''
                     else if max (row ! 13) (row ! 33) < 0.50 then ''Walking''
                     else ''Running'')"
  using assms by (simp add: predict_row_def default_label_map_def Let_def)


lemma feature_row_simps:
  "length (feature_row w a) = 40" "feature_row w a ! 13 = w" "feature_row w a ! 33 = a"
  by (simp_all add: feature_row_def nth_append)

theorem fallback_predict_thresholds_witness:
  "33 < length (feature_row 0.10 0.05)
   \<and> (\<exists>y. fallback_predict [feature_row 0.10 0.05] = Inr [y] \<and> default_label_map y = Some ''Idle'')
   \<and> (\<exists>y. fallback_predict [feature_row 0.30 0.20] = Inr [y] \<and> default_label_map y = Some ''Walking'')
   \<and> (\<exists>y. fallback_predict [feature_row 0.60 0.10] = Inr [y] \<and> default_label_map y = Some ''Running'')"
proof -
  have h: "33 < length (feature_row w a)" for w a
    by (simp add: feature_row_simps)
  from fallback_predict_thresholds [OF h, of "0.10" "0.05"]
       fallback_predict_thresholds [OF h, of "0.30" "0.20"]
       fallback_predict_thresholds [OF h, of "0.60" "0.10"] h
  show ?thesis
    by (simp add: feature_row_simps)
qed

section \<open>Properties of the window buffer\<close>

lemma py_int_bounds_nonneg:
  "0 \<le> x \<Longrightarrow> real_of_int (py_int x) \<le> x \<and> x < real_of_int (py_int x) + 1"
  unfolding py_int_def by (simp add: floor_le_iff)

lemma window_size_pos: "1 \<le> window_size cfg"
  by (simp add: window_size_def)

text \<open>
  C6, as the code has it. The window size is the double product of the window duration
  and the sample rate, as the multiplication computes it, cut to an integer towards zero,
  and 1 when that is below 1: from 1 on, the window size is the whole part of the
  computed product.
\<close>

theorem window_size_truncates:
  fixes cfg :: config
  defines "p \<equiv> float_mul cfg (window_seconds cfg) (fs_hz cfg)"
  shows "1 \<le> window_size cfg
       \<and> (1 \<le> p \<longrightarrow> real_of_int (window_size cfg) \<le> p \<and> p < real_of_int (window_size cfg) + 1)
       \<and> (p < 1 \<longrightarrow> window_size cfg = 1)"
proof -
  have a: "1 \<le> window_size cfg"
    by (rule window_size_pos)
  have b: "real_of_int (window_size cfg) \<le> p \<and> p < real_of_int (window_size cfg) + 1"
    if "1 \<le> p"
  proof -
    from that have "0 \<le> p" by simp
    from py_int_bounds_nonneg [OF this]
    have q: "real_of_int (py_int p) \<le> p" "p < real_of_int (py_int p) + 1"
      by simp_all
    from q(2) that have "1 \<le> py_int p" by linarith
    then have "window_size cfg = py_int p" by (simp add: window_size_def p_def)
    with q show ?thesis by simp
  qed
  have c: "window_size cfg = 1" if "p < 1"
  proof -
    have "py_int p \<le> 0"
    proof (cases "0 \<le> p")
      case True
      from py_int_bounds_nonneg [OF this] that show ?thesis by linarith
    next
      case False
      then show ?thesis unfolding py_int_def by (simp add: ceiling_le_iff)
    qed
    then show ?thesis by (simp add: window_size_def p_def)
  qed
  from a b c show ?thesis by blast
qed

lemma odd_window_product:
  "float_mul odd_window_config (window_seconds odd_window_config) (fs_hz odd_window_config)
     = 7033355980557517 / 2 ^ 45"
  by (simp add: odd_window_config_def small_config_def double_product_def)

lemma drift_product:
  "float_mul drift_config (window_seconds drift_config) (fs_hz drift_config) = 29 - 1 / 2 ^ 48"
  by (simp add: drift_config_def small_config_def double_product_def)

theorem window_size_truncates_witness:
  "window_size odd_window_config = 199 \<and> window_size drift_config = 28"
proof -
  have h1: "1 \<le> float_mul odd_window_config (window_seconds odd_window_config)
                   (fs_hz odd_window_config)"
    unfolding odd_window_product by simp
  have h2: "1 \<le> float_mul drift_config (window_seconds drift_config) (fs_hz drift_config)"
    unfolding drift_product by simp
  from window_size_truncates [of odd_window_config] h1
  have "real_of_int (window_size odd_window_config) \<le> 7033355980557517 / 2 ^ 45"
    and "(7033355980557517 :: real) / 2 ^ 45 < real_of_int (window_size odd_window_config) + 1"
    unfolding odd_window_product by blast+
  then have r1: "window_size odd_window_config = 199"
    by (simp; linarith?)
  from window_size_truncates [of drift_config] h2
  have "real_of_int (window_size drift_config) \<le> 29 - 1 / 2 ^ 48"
    and "(29 :: real) - 1 / 2 ^ 48 < real_of_int (window_size drift_config) + 1"
    unfolding drift_product by blast+
  then have r2: "window_size drift_config = 28"
    by (simp; linarith?)
  from r1 r2 show ?thesis by blast
qed

text \<open>
  C6, as the spec has it, fails: at 100 Hz and a window of 1.999 seconds the product,
  computed or exact, rounds to 200, and the window size is 199.
\<close>

theorem window_size_round_counterexample:
  "window_size odd_window_config = 199
   \<and> max 1 (round (float_mul odd_window_config (window_seconds odd_window_config)
                     (fs_hz odd_window_config))) = 200
   \<and> max 1 (round (window_seconds odd_window_config * real_of_int (fs_hz odd_window_config))) = 200"
  by (simp add: window_size_def odd_window_config_def small_config_def double_product_def
      py_int_def round_def)

lemma py_slice_last:
  "0 < k \<Longrightarrow> py_slice_from (- k) xs = drop (length xs - nat k) xs"
  by (simp add: py_slice_from_def nat_diff_distrib' nat_add_distrib)

lemma kept_at_most: "(n::nat) - (n - k) \<le> k"
  by arith

lemma add_sample_buffer:
  "buffer st (sample_limb smp) = Some b \<Longrightarrow>
   buffer (add_sample cfg smp st) =
     (buffer st)(sample_limb smp \<mapsto>
        drop (length (b @ [normalized smp]) - nat (3 * window_size cfg)) (b @ [normalized smp]))"
  using window_size_pos [of cfg]
  by (auto simp: add_sample_def Let_def py_slice_last mult.commute split: prod.splits)

lemma add_sample_unknown_limb:
  "buffer st (sample_limb smp) = None \<Longrightarrow> add_sample cfg smp st = st"
  by (simp add: add_sample_def)

lemma add_sample_keeps_bound:
  assumes "\<forall>limb b. buffer st limb = Some b \<longrightarrow> int (length b) \<le> 3 * window_size cfg"
  shows "\<forall>limb b. buffer (add_sample cfg smp st) limb = Some b \<longrightarrow>
           int (length b) \<le> 3 * window_size cfg"
proof (cases "buffer st (sample_limb smp)")
  case None
  with assms show ?thesis by (simp add: add_sample_unknown_limb)
next
  case (Some b)
  define b2 where
    "b2 = drop (length (b @ [normalized smp]) - nat (3 * window_size cfg)) (b @ [normalized smp])"
  have "length b2 \<le> nat (3 * window_size cfg)"
    unfolding b2_def length_drop by (rule kept_at_most)
  then have len: "int (length b2) \<le> 3 * window_size cfg"
    using window_size_pos [of cfg] by linarith
  have buf: "buffer (add_sample cfg smp st) = (buffer st)(sample_limb smp \<mapsto> b2)"
    unfolding b2_def by (rule add_sample_buffer [OF Some])
  from assms len show ?thesis
    unfolding buf by (auto split: if_splits)
qed

lemma add_samples_keep_bound:
  "\<forall>limb b. buffer st limb = Some b \<longrightarrow> int (length b) \<le> 3 * window_size cfg \<Longrightarrow>
   \<forall>limb b. buffer (foldl (\<lambda>st' smp. add_sample cfg smp st') st smps) limb = Some b \<longrightarrow>
     int (length b) \<le> 3 * window_size cfg"
proof (induction smps arbitrary: st)
  case Nil
  then show ?case by simp
next
  case (Cons smp smps)
  from Cons.IH [OF add_sample_keeps_bound [OF Cons.prems, of smp]] show ?case
    by simp
qed

lemma initial_state_bound:
  "\<forall>limb b. buffer (initial_state w) limb = Some b \<longrightarrow> int (length b) \<le> 3 * window_size cfg"
  using window_size_pos [of cfg]
  by (simp add: initial_state_def read_clock_def)

text \<open>
  C7. With every buffer within the retention cap of three window sizes before a call of
  \<open>add_sample\<close>, every buffer is within the cap after it; and the buffer of the sample's
  device is then the old buffer followed by the normalised sample, without as many of its
  oldest entries as exceed the cap, the others in their order. The buffers are empty when
  the module is loaded, so they are within the cap after any number of calls.
\<close>

theorem add_sample_retention:
  assumes "\<forall>limb b. buffer st limb = Some b \<longrightarrow> int (length b) \<le> 3 * window_size cfg"
  shows "(\<forall>limb b. buffer (add_sample cfg smp st) limb = Some b \<longrightarrow>
            int (length b) \<le> 3 * window_size cfg)
       \<and> (\<forall>b. buffer st (sample_limb smp) = Some b \<longrightarrow>
            buffer (add_sample cfg smp st) (sample_limb smp) =
              Some (drop (length (b @ [normalized smp]) - nat (3 * window_size cfg))
                     (b @ [normalized smp])))
       \<and> (\<forall>limb b.
            buffer (foldl (\<lambda>st' smp'. add_sample cfg smp' st') (initial_state w) smps) limb = Some b
            \<longrightarrow> int (length b) \<le> 3 * window_size cfg)"
proof (intro conjI)
  show "\<forall>limb b. buffer (add_sample cfg smp st) limb = Some b \<longrightarrow>
          int (length b) \<le> 3 * window_size cfg"
    by (rule add_sample_keeps_bound [OF assms])
next
  show "\<forall>b. buffer st (sample_limb smp) = Some b \<longrightarrow>
          buffer (add_sample cfg smp st) (sample_limb smp) =
            Some (drop (length (b @ [normalized smp]) - nat (3 * window_size cfg))
                   (b @ [normalized smp]))"
    by (simp add: add_sample_buffer)
next
  show "\<forall>limb b.
          buffer (foldl (\<lambda>st' smp'. add_sample cfg smp' st') (initial_state w) smps) limb = Some b
          \<longrightarrow> int (length b) \<le> 3 * window_size cfg"
    by (rule add_samples_keep_bound [OF initial_state_bound])
qed

lemma small_window: "window_size small_config = 1"
  by (simp add: window_size_def small_config_def double_product_def py_int_def)

lemma normalized_wrist_sample: "normalized (wrist_sample g) = still g"
  by (simp add: normalized_def wrist_sample_def still_def to_vec3_dict_def)

theorem add_sample_retention_witness:
  "buffer full_wrist ''wrist'' = Some [still 1, still 2, still 3]
   \<and> buffer full_wrist ''ankle'' = Some []
   \<and> 3 * window_size small_config = 3
   \<and> buffer (add_sample small_config (wrist_sample 4) full_wrist) ''wrist''
       = Some [still 2, still 3, still 4]
   \<and> (\<exists>b. buffer (add_sample small_config (wrist_sample 4) full_wrist) ''ankle'' = Some b
          \<and> int (length b) \<le> 3 * window_size small_config)"
proof -
  have h: "\<forall>limb b. buffer full_wrist limb = Some b \<longrightarrow> int (length b) \<le> 3 * window_size small_config"
    by (simp add: full_wrist_def small_window)
  have l: "sample_limb (wrist_sample 4) = ''wrist''"
    by (simp add: sample_limb_def wrist_sample_def)
  have b: "buffer full_wrist ''wrist'' = Some [still 1, still 2, still 3]"
    and c: "buffer full_wrist ''ankle'' = Some []"
    by (simp_all add: full_wrist_def)
  note r = add_sample_retention [OF h, of "wrist_sample 4"]
  from r have r1: "\<forall>limb b. buffer (add_sample small_config (wrist_sample 4) full_wrist) limb = Some b \<longrightarrow>
         int (length b) \<le> 3 * window_size small_config"
    by (rule conjunct1)
  from r b have "buffer (add_sample small_config (wrist_sample 4) full_wrist) ''wrist'' =
      Some (drop (length ([still 1, still 2, still 3] @ [normalized (wrist_sample 4)])
                   - nat (3 * window_size small_config))
             ([still 1, still 2, still 3] @ [normalized (wrist_sample 4)]))"
    unfolding l by blast
  then have r2: "buffer (add_sample small_config (wrist_sample 4) full_wrist) ''wrist''
       = Some [still 2, still 3, still 4]"
    by (simp add: small_window normalized_wrist_sample)
  have "buffer (add_sample small_config (wrist_sample 4) full_wrist) ''ankle'' = Some []"
    using b c by (simp add: add_sample_buffer [of full_wrist "wrist_sample 4", unfolded l, OF b])
  with r1 have r3: "\<exists>b. buffer (add_sample small_config (wrist_sample 4) full_wrist) ''ankle'' = Some b
          \<and> int (length b) \<le> 3 * window_size small_config"
    by blast
  from b c r2 r3 show ?thesis by (simp add: small_window)
qed

section \<open>Properties of the wire format\<close>

lemma cat_split16:
  "word_cat (ucast (drop_bit 8 w) :: 8 word) (ucast w :: 8 word) = (w :: 16 word)"
  by (rule bit_word_eqI) (auto simp: bit_simps)

lemma sint16: "- 32768 \<le> k \<Longrightarrow> k < 32768 \<Longrightarrow> sint (word_of_int k :: 16 word) = k"
  by (simp add: signed_of_int signed_take_bit_int_eq_self)

lemma le_i16_encode:
  "- 32768 \<le> k \<Longrightarrow> k < 32768 \<Longrightarrow>
   le_i16 (ucast (word_of_int k :: 16 word)) (ucast (drop_bit 8 (word_of_int k :: 16 word))) = k"
  by (simp add: le_i16_def cat_split16 sint16)

lemma py_int_near: "\<bar>real_of_int (py_int x) - x\<bar> < 1"
  unfolding py_int_def by (simp; linarith)

lemma py_int_range:
  assumes "- 32768 \<le> x" "x \<le> 32767"
  shows "- 32768 \<le> py_int x \<and> py_int x < 32768"
  using assms unfolding py_int_def
  by (simp add: le_floor_iff floor_less_iff le_ceiling_iff ceiling_less_iff; linarith)

lemma requantized_near: "\<bar>requantized v - v\<bar> < 0.001"
proof -
  have "\<bar>real_of_int (py_int (v * 1000)) - v * 1000\<bar> < 1"
    by (rule py_int_near)
  then show ?thesis
    unfolding requantized_def by (simp add: field_simps abs_if split: if_splits)
qed

lemma le_i16s_axis:
  assumes "- 32.768 \<le> v" "v \<le> 32.767"
  shows "le_i16s (encode_axis v @ bs) = py_int (v * 1000) # le_i16s bs"
proof -
  from assms have "- 32768 \<le> v * 1000" "v * 1000 \<le> 32767" by simp_all
  from py_int_range [OF this] show ?thesis
    by (simp add: encode_axis_def Let_def le_i16_encode)
qed

lemma length_encode_axis: "length (encode_axis v) = 2"
  by (simp add: encode_axis_def Let_def)

lemma decode_encode:
  assumes "\<forall>v \<in> set [ax, ay, az, gx, gy, gz]. - 32.768 \<le> v \<and> v \<le> 32.767"
  shows "decode_raw node (encode_sample [ax, ay, az, gx, gy, gz]) =
           Inr \<lparr>accel = VSeq (requantized ax) (requantized ay) (requantized az),
                gyro = VSeq (requantized gx) (requantized gy) (requantized gz),
                device = Some node\<rparr>"
proof -
  have len: "length (encode_sample [ax, ay, az, gx, gy, gz]) = 12"
    by (simp add: encode_sample_def length_encode_axis)
  have "le_i16s (encode_sample [ax, ay, az, gx, gy, gz]) =
          map (\<lambda>v. py_int (v * 1000)) [ax, ay, az, gx, gy, gz]"
    using assms le_i16s_axis [of _ "[]"] by (simp add: encode_sample_def le_i16s_axis)
  with len show ?thesis
    by (simp add: decode_raw_def unpack_6h_def bind_err_def sample_of_raw_def requantized_def)
qed

text \<open>
  C9. Six values between -32.768 and 32.767, encoded for the raw characteristic and
  decoded by the consumer, come back as a sample of the sending device whose six values
  each differ from the original by less than 0.001.
\<close>

theorem raw_roundtrip:
  assumes "\<forall>v \<in> set [ax, ay, az, gx, gy, gz]. - 32.768 \<le> v \<and> v \<le> 32.767"
  shows "\<exists>a b c d e f.
           decode_raw node (encode_sample [ax, ay, az, gx, gy, gz]) =
             Inr \<lparr>accel = VSeq a b c, gyro = VSeq d e f, device = Some node\<rparr>
           \<and> \<bar>a - ax\<bar> < 0.001 \<and> \<bar>b - ay\<bar> < 0.001 \<and> \<bar>c - az\<bar> < 0.001
           \<and> \<bar>d - gx\<bar> < 0.001 \<and> \<bar>e - gy\<bar> < 0.001 \<and> \<bar>f - gz\<bar> < 0.001"
  using decode_encode [OF assms, of node] requantized_near by blast

theorem raw_roundtrip_witness:
  "\<exists>a b c d e f.
      decode_raw ''ankle'' (encode_sample [0.0125, -1.5, 9.81, 32.767, -32.768, 0]) =
        Inr \<lparr>accel = VSeq a b c, gyro = VSeq d e f, device = Some ''ankle''\<rparr>
      \<and> \<bar>a - 0.0125\<bar> < 0.001 \<and> \<bar>b - (-1.5)\<bar> < 0.001 \<and> \<bar>c - 9.81\<bar> < 0.001
      \<and> \<bar>d - 32.767\<bar> < 0.001 \<and> \<bar>e - (-32.768)\<bar> < 0.001 \<and> \<bar>f - 0\<bar> < 0.001"
proof -
  have h: "\<forall>v \<in> set [0.0125, -1.5, 9.81, 32.767, -32.768, 0 :: real]. - 32.768 \<le> v \<and> v \<le> 32.767"
    by simp
  from raw_roundtrip [OF h, of "''ankle''"] show ?thesis
    by blast
qed

section \<open>Properties of the uploader\<close>

lemma insert_many_dirs [simp]: "dirs (snd (insert_many c docs w)) = dirs w"
  by (simp add: insert_many_def Let_def split: outcome.split)

lemma insert_many_remote_grows: "\<exists>ys. remote (snd (insert_many c docs w)) c' = remote w c' @ ys"
  by (simp add: insert_many_def Let_def split: outcome.split)

lemma insert_many_accept:
  "net w 0 = Accept \<Longrightarrow> \<exists>w'. insert_many c docs w = (None, w') \<and> dirs w' = dirs w \<and> remote w' c = remote w c @ docs"
  by (simp add: insert_many_def Let_def)

lemma insert_many_None:
  "insert_many c docs w = (None, w') \<Longrightarrow> net w 0 = Accept \<and> dirs w' = dirs w \<and> remote w' c = remote w c @ docs"
  by (auto simp: insert_many_def Let_def split: outcome.splits)

lemma insert_many_Some:
  "insert_many c docs w = (Some e, w') \<Longrightarrow> net w 0 \<noteq> Accept \<and> dirs w' = dirs w"
  by (auto simp: insert_many_def Let_def split: outcome.splits)

lemma insert_many_fail:
  "net w 0 \<noteq> Accept \<Longrightarrow> \<exists>w'. insert_many c docs w = (Some PyMongoError, w') \<and> dirs w' = dirs w"
  by (cases "net w 0") (simp_all add: insert_many_def Let_def)

lemma read_file_unlink:
  "read_file (unlink d p w) d' p' = (if d' = d \<and> p' = p then None else read_file w d' p')"
  by (auto simp: read_file_def unlink_def delete_conv)

lemma remote_unlink [simp]: "remote (unlink d p w) = remote w"
  by (simp add: unlink_def)

lemma replay_file_remote_grows:
  "\<exists>ys. remote (replay_file s p w) c = remote w c @ ys"
proof (cases "read_file w (backlog_dir s) p")
  case None
  then show ?thesis by (simp add: replay_file_def)
next
  case (Some docs)
  obtain r w1 where im: "insert_many (col s) docs w = (r, w1)" by (cases "insert_many (col s) docs w")
  from insert_many_remote_grows [of "col s" docs w c] im
  have "\<exists>ys. remote w1 c = remote w c @ ys" by simp
  with Some im show ?thesis
    by (cases r) (auto simp: replay_file_def)
qed

lemma replay_file_other:
  "p' \<noteq> p \<Longrightarrow> read_file (replay_file s p w) d p' = read_file w d p'"
proof (cases "read_file w (backlog_dir s) p")
  case None
  then show ?thesis by (simp add: replay_file_def)
next
  case (Some docs)
  assume ne: "p' \<noteq> p"
  obtain r w1 where im: "insert_many (col s) docs w = (r, w1)" by (cases "insert_many (col s) docs w")
  from insert_many_dirs [of "col s" docs w] im have "dirs w1 = dirs w" by simp
  then have "read_file w1 d p' = read_file w d p'" by (simp add: read_file_def)
  with Some im ne show ?thesis
    by (cases r) (auto simp: replay_file_def read_file_unlink)
qed

lemma replay_file_gone:
  "read_file w d p' = None \<Longrightarrow> read_file (replay_file s p w) d p' = None"
proof (cases "read_file w (backlog_dir s) p")
  case None
  assume "read_file w d p' = None"
  with None show ?thesis by (simp add: replay_file_def)
next
  case (Some docs)
  assume g: "read_file w d p' = None"
  obtain r w1 where im: "insert_many (col s) docs w = (r, w1)" by (cases "insert_many (col s) docs w")
  from insert_many_dirs [of "col s" docs w] im have "dirs w1 = dirs w" by simp
  then have "read_file w1 d p' = read_file w d p'" by (simp add: read_file_def)
  with Some im g show ?thesis
    by (cases r) (auto simp: replay_file_def read_file_unlink)
qed

lemma replay_file_accept:
  assumes "read_file w (backlog_dir s) p = Some docs" "net w 0 = Accept"
  shows "read_file (replay_file s p w) (backlog_dir s) p = None
       \<and> remote (replay_file s p w) (col s) = remote w (col s) @ docs"
proof (cases "docs = []")
  case True
  with assms show ?thesis by (simp add: replay_file_def read_file_unlink)
next
  case False
  from insert_many_accept [OF assms(2), of "col s" docs] obtain w1
    where "insert_many (col s) docs w = (None, w1)" "remote w1 (col s) = remote w (col s) @ docs"
    by blast
  with assms False show ?thesis by (simp add: replay_file_def read_file_unlink)
qed

lemma replay_file_fail:
  assumes "read_file w (backlog_dir s) p = Some docs" "docs \<noteq> []" "net w 0 \<noteq> Accept"
  shows "dirs (replay_file s p w) = dirs w"
proof -
  from insert_many_fail [OF assms(3), of "col s" docs] obtain w1
    where "insert_many (col s) docs w = (Some PyMongoError, w1)" "dirs w1 = dirs w"
    by blast
  with assms show ?thesis by (simp add: replay_file_def)
qed

lemma replay_file_same:
  assumes "read_file w (backlog_dir s) p = Some docs"
  shows "read_file (replay_file s p w) (backlog_dir s) p = Some docs
       \<or> (read_file (replay_file s p w) (backlog_dir s) p = None
          \<and> remote (replay_file s p w) (col s) = remote w (col s) @ docs)"
proof (cases "docs = []")
  case True
  with assms show ?thesis by (simp add: replay_file_def read_file_unlink)
next
  case False
  show ?thesis
  proof (cases "net w 0 = Accept")
    case True
    from replay_file_accept [OF assms True] show ?thesis by simp
  next
    case False
    from replay_file_fail [OF assms \<open>docs \<noteq> []\<close> False] assms show ?thesis
      by (simp add: read_file_def)
  qed
qed

lemma replay_step_inv:
  assumes "kept_or_delivered s w0 w p docs"
  shows "kept_or_delivered s w0 (replay_file s q w) p docs"
proof -
  from replay_file_remote_grows [of s q w "col s"] obtain us
    where us: "remote (replay_file s q w) (col s) = remote w (col s) @ us" by blast
  from assms consider
      (kept) ys where "read_file w (backlog_dir s) p = Some docs" "remote w (col s) = remote w0 (col s) @ ys"
    | (gone) ys zs where "read_file w (backlog_dir s) p = None" "remote w (col s) = remote w0 (col s) @ ys @ docs @ zs"
    unfolding kept_or_delivered_def by blast
  then show ?thesis
  proof cases
    case kept
    show ?thesis
    proof (cases "q = p")
      case True
      from replay_file_same [OF kept(1)] kept(2) us True show ?thesis
        unfolding kept_or_delivered_def by (metis append.assoc append_Nil2)
    next
      case False
      then have "read_file (replay_file s q w) (backlog_dir s) p = Some docs"
        using kept(1) by (simp add: replay_file_other)
      with us kept(2) show ?thesis
        unfolding kept_or_delivered_def by simp
    qed
  next
    case gone
    from replay_file_gone [OF gone(1)] have "read_file (replay_file s q w) (backlog_dir s) p = None" .
    moreover from us gone(2)
    have "remote (replay_file s q w) (col s) = remote w0 (col s) @ ys @ docs @ (zs @ us)"
      by simp
    ultimately show ?thesis
      unfolding kept_or_delivered_def by blast
  qed
qed

lemma replay_all_inv:
  "kept_or_delivered s w0 w p docs \<Longrightarrow>
   kept_or_delivered s w0 (foldl (\<lambda>w' q. replay_file s q w') w qs) p docs"
  by (induction qs arbitrary: w) (simp_all add: replay_step_inv)

lemma flush_backlog_inv:
  assumes "read_file w (backlog_dir s) p = Some docs"
  shows "kept_or_delivered s w (flush_backlog s w) p docs"
proof -
  from assms have "kept_or_delivered s w w p docs"
    by (simp add: kept_or_delivered_def)
  then show ?thesis
    unfolding flush_backlog_def by (rule replay_all_inv)
qed

lemma read_clock_simps [simp]:
  "fst (read_clock w) = clock w 0" "net (snd (read_clock w)) = net w"
  "disk (snd (read_clock w)) = disk w" "dirs (snd (read_clock w)) = dirs w"
  "remote (snd (read_clock w)) = remote w"
  by (simp_all add: read_clock_def)

lemma insert_many_keeps [simp]:
  "disk (snd (insert_many c docs w)) = disk w" "clock (snd (insert_many c docs w)) = clock w"
  by (simp_all add: insert_many_def Let_def split: outcome.split)

lemma insert_batch_accept:
  assumes "net w 0 = Accept"
  shows "\<exists>w'. insert_batch s docs w = (None, w')"
proof (cases "docs = []")
  case True
  then show ?thesis by (simp add: insert_batch_def)
next
  case False
  from insert_many_accept [OF assms, of "col s" docs] obtain w1
    where "insert_many (col s) docs w = (None, w1)" by blast
  with False show ?thesis by (simp add: insert_batch_def)
qed

lemma insert_batch_backlog:
  assumes "docs \<noteq> []" "net w 0 \<noteq> Accept" "disk w 0"
  shows "\<exists>w'. insert_batch s docs w = (None, w')
           \<and> dirs w' = (dirs w)(backlog_dir s :=
                 AList.update (backlog_name (py_int (clock w 0)))
                   ((case read_file w (backlog_dir s) (backlog_name (py_int (clock w 0))) of
                       None \<Rightarrow> [] | Some old \<Rightarrow> old) @ docs)
                   (dirs w (backlog_dir s)))"
proof -
  from insert_many_fail [OF assms(2), of "col s" docs] obtain w1
    where im: "insert_many (col s) docs w = (Some PyMongoError, w1)" and d1: "dirs w1 = dirs w"
    by blast
  from im have k: "disk w1 = disk w" "clock w1 = clock w"
    using insert_many_keeps [of "col s" docs w] by simp_all
  obtain t w2 where rc: "read_clock w1 = (t, w2)" by (cases "read_clock w1")
  with k d1 have t: "t = clock w 0" and w2: "disk w2 = disk w" "dirs w2 = dirs w"
    using read_clock_simps [of w1] by simp_all
  from assms(1,3) im rc t w2 show ?thesis
    by (simp add: insert_batch_def append_lines_def Let_def read_file_def)
qed

lemma insert_batch_disk_fail:
  assumes "docs \<noteq> []" "net w 0 \<noteq> Accept" "\<not> disk w 0"
  shows "\<exists>w'. insert_batch s docs w = (Some OSError, w') \<and> dirs w' = dirs w"
proof -
  from insert_many_fail [OF assms(2), of "col s" docs] obtain w1
    where im: "insert_many (col s) docs w = (Some PyMongoError, w1)" and d1: "dirs w1 = dirs w"
    by blast
  from im have k: "disk w1 = disk w" "clock w1 = clock w"
    using insert_many_keeps [of "col s" docs w] by simp_all
  obtain t w2 where rc: "read_clock w1 = (t, w2)" by (cases "read_clock w1")
  with k d1 have w2: "disk w2 = disk w" "dirs w2 = dirs w"
    using read_clock_simps [of w1] by simp_all
  from assms(1,3) im rc w2 show ?thesis
    by (simp add: insert_batch_def append_lines_def Let_def)
qed

lemma flush_sink_accept: "net w 0 = Accept \<Longrightarrow> fst (flush_sink s batch w) = []"
  using insert_batch_accept [of w s batch] by (auto simp: flush_sink_def)

lemma flush_sink_backlog:
  "batch \<noteq> [] \<Longrightarrow> net w 0 \<noteq> Accept \<Longrightarrow> disk w 0 \<Longrightarrow> fst (flush_sink s batch w) = []"
  using insert_batch_backlog [of batch w s] by (auto simp: flush_sink_def)

lemma flush_sink_disk_fail:
  "batch \<noteq> [] \<Longrightarrow> net w 0 \<noteq> Accept \<Longrightarrow> \<not> disk w 0 \<Longrightarrow> fst (flush_sink s batch w) = batch"
  using insert_batch_disk_fail [of batch w s] by (auto simp: flush_sink_def)

lemma maybe_upload_open:
  assumes "\<not> clock (world st) 0 - last_upload st < real_of_int (batch_upload_seconds cfg)"
  shows "sensor_batch (maybe_upload cfg st) =
           fst (upload_block (sensor_sink cfg) (sensor_batch st) (snd (read_clock (world st))))"
    and "pred_batch (maybe_upload cfg st) =
           fst (upload_block (pred_sink cfg) (pred_batch st)
                 (snd (upload_block (sensor_sink cfg) (sensor_batch st) (snd (read_clock (world st))))))"
  using assms by (simp_all add: maybe_upload_def Let_def read_clock_def split: prod.splits)

lemma update_names:
  "map fst (AList.update k v al) = (if k \<in> fst ` set al then map fst al else map fst al @ [k])"
  by (induction al) auto


lemmas world_eval =
  flush_backlog_def backlog_files_def glob_backlog_def suffix_to_prefix replay_file_def
  read_file_def insert_many_def unlink_def insert_batch_def append_lines_def read_clock_def
  flush_sink_def upload_block_def Let_def py_int_def
  quiet_world_def outage_world_def clash_world_def recovering_world_def dead_disk_world_def
  backlog_world_def sensor_store_def pred_store_def

lemma backlog_name_105: "backlog_name 105 = ''backlog_105.ndjson''"
  by (simp add: backlog_name_def str_int_def str_nat.simps digit_char_def)

lemma replay_all_remote_grows:
  "\<exists>ys. remote (foldl (\<lambda>w' q. replay_file s q w') w qs) c = remote w c @ ys"
proof (induction qs arbitrary: w)
  case Nil
  show ?case by simp
next
  case (Cons q qs)
  from replay_file_remote_grows [of s q w c] obtain us
    where "remote (replay_file s q w) c = remote w c @ us" by blast
  moreover from Cons [of "replay_file s q w"] obtain vs
    where "remote (foldl (\<lambda>w' q. replay_file s q w') (replay_file s q w) qs) c =
             remote (replay_file s q w) c @ vs" by blast
  ultimately show ?case by simp
qed

lemma flush_backlog_remote_grows: "\<exists>ys. remote (flush_backlog s w) c = remote w c @ ys"
  unfolding flush_backlog_def by (rule replay_all_remote_grows)

text \<open>
  C4. A backlog file that \<open>flush_backlog\<close> meets with the contents \<open>docs\<close> is afterwards
  either still there with the same contents, or gone with all of \<open>docs\<close>, in order, among
  what the remote collection has received in the meantime. In the iteration that replays
  the file, a write that raises (refused, or stored only in part) leaves every file as it
  was, and an accepted write stores the contents and removes the file. No collection
  loses a document to the replay.
\<close>

theorem flush_backlog_replay:
  assumes "read_file w (backlog_dir s) p = Some docs"
  shows "(read_file (flush_backlog s w) (backlog_dir s) p = Some docs
          \<or> read_file (flush_backlog s w) (backlog_dir s) p = None
            \<and> (\<exists>ys zs. remote (flush_backlog s w) (col s) = remote w (col s) @ ys @ docs @ zs))
       \<and> (docs \<noteq> [] \<and> net w 0 \<noteq> Accept \<longrightarrow> dirs (replay_file s p w) = dirs w)
       \<and> (net w 0 = Accept \<longrightarrow>
            read_file (replay_file s p w) (backlog_dir s) p = None
            \<and> remote (replay_file s p w) (col s) = remote w (col s) @ docs)
       \<and> (\<exists>ys. remote (flush_backlog s w) c = remote w c @ ys)"
proof -
  from flush_backlog_inv [OF assms]
  have a: "read_file (flush_backlog s w) (backlog_dir s) p = Some docs
          \<or> read_file (flush_backlog s w) (backlog_dir s) p = None
            \<and> (\<exists>ys zs. remote (flush_backlog s w) (col s) = remote w (col s) @ ys @ docs @ zs)"
    unfolding kept_or_delivered_def by blast
  from replay_file_fail [OF assms]
  have b: "docs \<noteq> [] \<and> net w 0 \<noteq> Accept \<longrightarrow> dirs (replay_file s p w) = dirs w"
    by blast
  from replay_file_accept [OF assms]
  have c: "net w 0 = Accept \<longrightarrow>
            read_file (replay_file s p w) (backlog_dir s) p = None
            \<and> remote (replay_file s p w) (col s) = remote w (col s) @ docs"
    by blast
  from a b c flush_backlog_remote_grows [of s w c] show ?thesis by blast
qed

theorem flush_backlog_replay_witness:
  "read_file (flush_backlog sensor_store backlog_world) ''data/backlog'' ''backlog_100.ndjson''
     = Some [doc_a, doc_a]
   \<and> read_file (flush_backlog sensor_store backlog_world) ''data/backlog'' ''backlog_101.ndjson''
     = None
   \<and> (\<exists>ys zs. remote (flush_backlog sensor_store backlog_world) ''SensorData''
                 = remote backlog_world ''SensorData'' @ ys @ [doc_b] @ zs)
   \<and> dirs (replay_file sensor_store ''backlog_100.ndjson'' backlog_world) = dirs backlog_world"
proof -
  have d: "backlog_dir sensor_store = ''data/backlog''" and c: "col sensor_store = ''SensorData''"
    by (simp_all add: sensor_store_def)
  have h0: "read_file backlog_world (backlog_dir sensor_store) ''backlog_100.ndjson'' = Some [doc_a, doc_a]"
    and h1: "read_file backlog_world (backlog_dir sensor_store) ''backlog_101.ndjson'' = Some [doc_b]"
    by (simp_all add: world_eval)
  have n: "[doc_a, doc_a] \<noteq> [] \<and> net backlog_world 0 \<noteq> Accept"
    by (simp add: backlog_world_def quiet_world_def)
  have k: "read_file (flush_backlog sensor_store backlog_world) ''data/backlog'' ''backlog_100.ndjson''
     = Some [doc_a, doc_a]"
    and g: "read_file (flush_backlog sensor_store backlog_world) ''data/backlog'' ''backlog_101.ndjson'' \<noteq> Some [doc_b]"
    by (simp_all add: world_eval)
  from flush_backlog_replay [OF h1] g
  have r1: "read_file (flush_backlog sensor_store backlog_world) ''data/backlog'' ''backlog_101.ndjson'' = None
     \<and> (\<exists>ys zs. remote (flush_backlog sensor_store backlog_world) ''SensorData''
                 = remote backlog_world ''SensorData'' @ ys @ [doc_b] @ zs)"
    unfolding d c by blast
  from flush_backlog_replay [OF h0] n
  have r2: "dirs (replay_file sensor_store ''backlog_100.ndjson'' backlog_world) = dirs backlog_world"
    by blast
  from k r1 r2 show ?thesis by blast
qed

lemmas state_eval = maybe_upload_def small_config_def outage_state_def full_wrist_def

text \<open>
  C3, as the code has it. When the remote write of a non-empty batch fails and the
  backlog write succeeds, \<open>insert_batch\<close> returns normally and the batch stands at the end
  of the backlog file named after the current second: a new file holding exactly the batch
  when no file had that name, the existing file with the batch appended (and no new file)
  otherwise. No other file and no other directory changes. The flush hands back an empty
  batch, so the next flush sends none of these documents from memory.
\<close>

theorem failed_flush_backlog:
  fixes s :: sink and w :: world
  assumes "docs \<noteq> []" and "net w 0 \<noteq> Accept" and "disk w 0"
  defines "d \<equiv> backlog_dir s" and "name \<equiv> backlog_name (py_int (clock w 0))"
  shows "\<exists>w'. insert_batch s docs w = (None, w')
           \<and> read_file w' d name =
               Some ((case read_file w d name of None \<Rightarrow> [] | Some old \<Rightarrow> old) @ docs)
           \<and> (\<forall>p. p \<noteq> name \<longrightarrow> read_file w' d p = read_file w d p)
           \<and> map fst (dirs w' d) =
               (if read_file w d name = None then map fst (dirs w d) @ [name]
                else map fst (dirs w d))
           \<and> (\<forall>d'. d' \<noteq> d \<longrightarrow> dirs w' d' = dirs w d')
           \<and> fst (flush_sink s docs w) = []
           \<and> (\<forall>snk w''. upload_block snk (fst (flush_sink s docs w)) w'' = ([], w''))"
proof -
  from insert_batch_backlog [OF assms(1-3), of s] obtain w'
    where ib: "insert_batch s docs w = (None, w')"
      and dw: "dirs w' = (dirs w)(d := AList.update name
                 ((case read_file w d name of None \<Rightarrow> [] | Some old \<Rightarrow> old) @ docs) (dirs w d))"
    unfolding d_def name_def by blast
  have a: "read_file w' d name =
             Some ((case read_file w d name of None \<Rightarrow> [] | Some old \<Rightarrow> old) @ docs)"
    unfolding read_file_def dw by (simp add: update_conv')
  have b: "\<forall>p. p \<noteq> name \<longrightarrow> read_file w' d p = read_file w d p"
    unfolding read_file_def dw by (simp add: update_conv')
  have c: "map fst (dirs w' d) =
             (if read_file w d name = None then map fst (dirs w d) @ [name] else map fst (dirs w d))"
    unfolding dw by (simp add: update_names read_file_def map_of_eq_None_iff)
  have e: "\<forall>d'. d' \<noteq> d \<longrightarrow> dirs w' d' = dirs w d'"
    unfolding dw by simp
  have f: "fst (flush_sink s docs w) = []"
    by (rule flush_sink_backlog [OF assms(1-3)])
  have g: "\<forall>snk w''. upload_block snk (fst (flush_sink s docs w)) w'' = ([], w'')"
    unfolding f by (simp add: upload_block_def split: option.split)
  from ib a b c e f g show ?thesis by blast
qed

theorem failed_flush_backlog_witness:
  "(\<exists>w'. insert_batch sensor_store [doc_a] recovering_world = (None, w')
        \<and> read_file w' ''data/backlog'' ''backlog_105.ndjson'' = Some [doc_a]
        \<and> map fst (dirs w' ''data/backlog'') = [''backlog_105.ndjson''])
   \<and> fst (flush_sink sensor_store [doc_a] recovering_world) = []
   \<and> remote (snd (flush_sink sensor_store [doc_b]
                (snd (flush_sink sensor_store [doc_a] recovering_world)))) ''SensorData''
       = [doc_b, doc_a]
   \<and> dirs (snd (flush_sink sensor_store [doc_b]
                (snd (flush_sink sensor_store [doc_a] recovering_world)))) ''data/backlog'' = []"
proof -
  have h: "[doc_a] \<noteq> []" "net recovering_world 0 \<noteq> Accept" "disk recovering_world 0"
    by (simp_all add: world_eval)
  have n: "backlog_name (py_int (clock recovering_world 0)) = ''backlog_105.ndjson''"
    "backlog_dir sensor_store = ''data/backlog''"
    "read_file recovering_world ''data/backlog'' ''backlog_105.ndjson'' = None"
    "dirs recovering_world ''data/backlog'' = []"
    by (simp_all add: world_eval backlog_name_105)
  from failed_flush_backlog [OF h, of sensor_store]
  have r: "(\<exists>w'. insert_batch sensor_store [doc_a] recovering_world = (None, w')
        \<and> read_file w' ''data/backlog'' ''backlog_105.ndjson'' = Some [doc_a]
        \<and> map fst (dirs w' ''data/backlog'') = [''backlog_105.ndjson''])
     \<and> fst (flush_sink sensor_store [doc_a] recovering_world) = []"
    unfolding n by auto
  have e: "remote (snd (flush_sink sensor_store [doc_b]
                (snd (flush_sink sensor_store [doc_a] recovering_world)))) ''SensorData''
       = [doc_b, doc_a]"
    "dirs (snd (flush_sink sensor_store [doc_b]
                (snd (flush_sink sensor_store [doc_a] recovering_world)))) ''data/backlog'' = []"
    by (simp_all add: world_eval backlog_name_105 doc_a_def doc_b_def)
  from r e show ?thesis by blast
qed

text \<open>
  C3, as the spec has it, fails: in an outage both sinks fail within the same second and
  their two batches go to one file. The second failing flush creates no file: the file of
  that second exists already.
\<close>

theorem shared_backlog_file_counterexample:
  "sensor_batch outage_state = [doc_a] \<and> pred_batch outage_state = [doc_b]
   \<and> dirs (world outage_state) ''data/backlog'' = []
   \<and> dirs (world (maybe_upload small_config outage_state)) ''data/backlog''
       = [(''backlog_105.ndjson'', [doc_a, doc_b])]
   \<and> map fst (dirs clash_world ''data/backlog'') = [''backlog_105.ndjson'']
   \<and> map fst (dirs (snd (insert_batch pred_store [doc_b] clash_world)) ''data/backlog'')
       = [''backlog_105.ndjson'']"
  by (simp add: state_eval world_eval backlog_name_105 doc_a_def doc_b_def)

text \<open>
  C5, as the code has it. \<open>upload_block\<close> is what a timed flush runs for one sink. With
  a non-empty batch: an accepted remote write empties the batch; a failed remote write
  followed by a successful backlog write appends the batch to the backlog file of the
  current second and empties the batch as well; the batch stays in memory only when the
  backlog write fails too. Once the interval has passed, \<open>maybe_upload\<close> leaves in each
  sink's batch what \<open>upload_block\<close> hands back, the sensor sink first.
\<close>

theorem timed_flush_outcomes:
  fixes s :: sink and w :: world
  assumes "batch \<noteq> []"
  defines "name \<equiv> backlog_name (py_int (clock w 0))"
  shows "(net w 0 = Accept \<longrightarrow> fst (upload_block (Some s) batch w) = [])
       \<and> (net w 0 \<noteq> Accept \<and> disk w 0 \<longrightarrow>
            fst (upload_block (Some s) batch w) = []
            \<and> (\<exists>w'. insert_batch s batch w = (None, w')
                  \<and> read_file w' (backlog_dir s) name =
                      Some ((case read_file w (backlog_dir s) name of
                               None \<Rightarrow> [] | Some old \<Rightarrow> old) @ batch)))
       \<and> (net w 0 \<noteq> Accept \<and> \<not> disk w 0 \<longrightarrow> fst (upload_block (Some s) batch w) = batch)
       \<and> (\<not> clock (world st) 0 - last_upload st < real_of_int (batch_upload_seconds cfg) \<longrightarrow>
            sensor_batch (maybe_upload cfg st) =
              fst (upload_block (sensor_sink cfg) (sensor_batch st) (snd (read_clock (world st))))
            \<and> pred_batch (maybe_upload cfg st) =
              fst (upload_block (pred_sink cfg) (pred_batch st)
                    (snd (upload_block (sensor_sink cfg) (sensor_batch st)
                           (snd (read_clock (world st)))))))"
proof -
  have ub: "upload_block (Some s) batch w = flush_sink s batch w"
    using assms(1) by (simp add: upload_block_def)
  have a: "net w 0 = Accept \<longrightarrow> fst (upload_block (Some s) batch w) = []"
    unfolding ub by (simp add: flush_sink_accept)
  have b: "fst (upload_block (Some s) batch w) = []
            \<and> (\<exists>w'. insert_batch s batch w = (None, w')
                  \<and> read_file w' (backlog_dir s) name =
                      Some ((case read_file w (backlog_dir s) name of
                               None \<Rightarrow> [] | Some old \<Rightarrow> old) @ batch))"
    if "net w 0 \<noteq> Accept \<and> disk w 0"
  proof -
    from that have n: "net w 0 \<noteq> Accept" and d: "disk w 0" by simp_all
    from insert_batch_backlog [OF assms(1) n d, of s] obtain w'
      where ib: "insert_batch s batch w = (None, w')"
        and dw: "dirs w' = (dirs w)(backlog_dir s := AList.update name
                 ((case read_file w (backlog_dir s) name of None \<Rightarrow> [] | Some old \<Rightarrow> old) @ batch)
                 (dirs w (backlog_dir s)))"
      unfolding name_def by blast
    have "read_file w' (backlog_dir s) name =
             Some ((case read_file w (backlog_dir s) name of None \<Rightarrow> [] | Some old \<Rightarrow> old) @ batch)"
      unfolding read_file_def dw by (simp add: update_conv')
    with ib flush_sink_backlog [OF assms(1) n d, of s] show ?thesis
      unfolding ub by blast
  qed
  have c: "net w 0 \<noteq> Accept \<and> \<not> disk w 0 \<longrightarrow> fst (upload_block (Some s) batch w) = batch"
    unfolding ub using assms(1) by (simp add: flush_sink_disk_fail)
  from a b c maybe_upload_open [of st cfg] show ?thesis by blast
qed

theorem timed_flush_outcomes_witness:
  "fst (upload_block (Some sensor_store) [doc_a] quiet_world) = []
   \<and> fst (upload_block (Some sensor_store) [doc_a] outage_world) = []
   \<and> (\<exists>w'. insert_batch sensor_store [doc_a] outage_world = (None, w')
         \<and> read_file w' ''data/backlog'' ''backlog_105.ndjson'' = Some [doc_a])
   \<and> fst (upload_block (Some sensor_store) [doc_a] dead_disk_world) = [doc_a]
   \<and> sensor_batch (maybe_upload small_config outage_state) = []
   \<and> pred_batch (maybe_upload small_config outage_state) = []"
proof -
  have h: "[doc_a] \<noteq> []" by simp
  have q: "net quiet_world 0 = Accept"
    and o: "net outage_world 0 \<noteq> Accept \<and> disk outage_world 0"
    and x: "net dead_disk_world 0 \<noteq> Accept \<and> \<not> disk dead_disk_world 0"
    and g: "\<not> clock (world outage_state) 0 - last_upload outage_state
              < real_of_int (batch_upload_seconds small_config)"
    by (simp_all add: world_eval state_eval)
  have n: "backlog_name (py_int (clock outage_world 0)) = ''backlog_105.ndjson''"
    "backlog_dir sensor_store = ''data/backlog''"
    "read_file outage_world ''data/backlog'' ''backlog_105.ndjson'' = None"
    by (simp_all add: world_eval backlog_name_105)
  from timed_flush_outcomes [OF h, of quiet_world sensor_store] q
  have r1: "fst (upload_block (Some sensor_store) [doc_a] quiet_world) = []"
    by blast
  from timed_flush_outcomes [OF h, of outage_world sensor_store] o
  have r2: "fst (upload_block (Some sensor_store) [doc_a] outage_world) = []
     \<and> (\<exists>w'. insert_batch sensor_store [doc_a] outage_world = (None, w')
         \<and> read_file w' ''data/backlog'' ''backlog_105.ndjson'' = Some [doc_a])"
    unfolding n by auto
  from timed_flush_outcomes [OF h, of dead_disk_world sensor_store] x
  have r3: "fst (upload_block (Some sensor_store) [doc_a] dead_disk_world) = [doc_a]"
    by blast
  have r4: "sensor_batch (maybe_upload small_config outage_state) = []"
    "pred_batch (maybe_upload small_config outage_state) = []"
    by (simp_all add: state_eval world_eval)
  from r1 r2 r3 r4 show ?thesis by blast
qed

text \<open>
  C5, as the spec has it, fails: after a timed flush whose remote write is refused the
  sensor batch is empty, not left in place; its document is in the backlog file.
\<close>

theorem batch_left_in_place_counterexample:
  "sensor_batch outage_state = [doc_a]
   \<and> net (world outage_state) 0 = Reject
   \<and> sensor_batch (maybe_upload small_config outage_state) = []
   \<and> read_file (world (maybe_upload small_config outage_state)) ''data/backlog''
        ''backlog_105.ndjson'' = Some [doc_a, doc_b]"
  by (simp add: state_eval world_eval backlog_name_105 doc_a_def doc_b_def)

section \<open>Properties of the consumer\<close>

lemma consumer_append:
  "consumer cfg (xs @ ys) st =
     (case consumer cfg xs st of Inl e \<Rightarrow> Inl e | Inr st' \<Rightarrow> consumer cfg ys st')"
  by (induction xs arbitrary: st) (simp_all split: sum.split)

text \<open>
  C8. A raw packet whose payload is not 12 bytes long leaves the consumer's state as it
  is and raises nothing; a run of the consumer over a queue that contains such a packet
  ends as the run over the queue without it. The notification callback does not even
  enqueue such a payload.
\<close>

theorem malformed_raw_dropped:
  assumes "length payload \<noteq> 12"
  shows "consumer_step cfg (Packet node ''raw'' payload) st = Inr st
       \<and> consumer cfg (before @ Packet node ''raw'' payload # after) st
           = consumer cfg (before @ after) st
       \<and> cb_raw node payload queue = queue"
proof -
  have a: "consumer_step cfg (Packet node ''raw'' payload) st' = Inr st'" for st'
    using assms by (simp add: consumer_step_def)
  have d: "consumer cfg (Packet node ''raw'' payload # after) st' = consumer cfg after st'" for st'
    by (simp add: a)
  have b: "consumer cfg (before @ Packet node ''raw'' payload # after) st
           = consumer cfg (before @ after) st"
    unfolding consumer_append d ..
  have c: "cb_raw node payload queue = queue"
    using assms by (simp add: cb_raw_def)
  from a b c show ?thesis by blast
qed

lemma decode_good: "decode_raw ''wrist'' good_payload = Inr (wrist_sample 1)"
  by (simp add: decode_raw_def unpack_6h_def good_payload_def bind_err_def sample_of_raw_def
      le_i16_def wrist_sample_def word_cat_eq)

lemma window_one: "compute_features [''wrist'' \<mapsto> [still 1]] =
   [0,0,0,0, 0,0,0,0, 1,0,1,1, 1,0,1,1, 0,0,0,0] @ replicate 20 0"
  by (simp add: compute_features_def limb_slot_def feats_def get_vec3_def still_def dict_get_def
      magnitude_def np_mean_def np_min_def np_max_def)

lemma predict_one: "predict_window (eng small_config) [''wrist'' \<mapsto> [still 1]] = Inr (''Idle'', Some [0.6, 0.2, 0.2])"
  by (simp add: predict_window_def window_one small_config_def predict_row_def default_label_map_def
     fallback_predict_proba_def proba_row_def)

lemma step_good:
  "\<exists>st'. consumer_step small_config (Packet ''wrist'' ''raw'' good_payload) full_wrist = Inr st'
     \<and> buffer st' ''wrist'' = Some [still 2, still 3, still 1]
     \<and> pred_batch st' = [[(''type'', JStr ''prediction''), (''timestamp'', JStamp 100),
                           (''label'', JStr ''Idle''), (''probs'', JList [0.6, 0.2, 0.2])]]"
  by (simp add: consumer_step_def decode_raw_def unpack_6h_def good_payload_def bind_err_def
      sample_of_raw_def le_i16_def word_cat_eq
      add_sample_def sample_limb_def normalized_def to_vec3_dict_def still_def
      window_size_def py_int_def py_slice_from_def Let_def read_clock_def
      full_wrist_def quiet_world_def small_config_def double_product_def
      tick_def maybe_predict_def getitem_def queue_prediction_def maybe_upload_def
      predict_window_def compute_features_def limb_slot_def feats_def get_vec3_def dict_get_def
      magnitude_def np_mean_def np_min_def np_max_def predict_row_def default_label_map_def
      fallback_predict_proba_def proba_row_def)

theorem malformed_raw_dropped_witness:
  "consumer_step small_config (Packet ''wrist'' ''raw'' [1, 2, 3]) full_wrist = Inr full_wrist
   \<and> cb_raw ''wrist'' [1, 2, 3] [Timeout] = [Timeout]
   \<and> (\<exists>st'. consumer small_config
                [Packet ''wrist'' ''raw'' [1, 2, 3], Packet ''wrist'' ''raw'' good_payload] full_wrist
              = Inr st'
            \<and> buffer st' ''wrist'' = Some [still 2, still 3, still 1])"
proof -
  have h: "length [1, 2, 3 :: byte] \<noteq> 12" by simp
  note r = malformed_raw_dropped [OF h, of small_config "''wrist''" full_wrist "[]"
      "[Packet ''wrist'' ''raw'' good_payload]" "[Timeout]"]
  from r have a: "consumer_step small_config (Packet ''wrist'' ''raw'' [1, 2, 3]) full_wrist = Inr full_wrist"
    and c: "cb_raw ''wrist'' [1, 2, 3] [Timeout] = [Timeout]"
    by blast+
  from r have "consumer small_config
                [Packet ''wrist'' ''raw'' [1, 2, 3], Packet ''wrist'' ''raw'' good_payload] full_wrist
        = consumer small_config [Packet ''wrist'' ''raw'' good_payload] full_wrist"
    by simp
  with step_good have b: "\<exists>st'. consumer small_config
                [Packet ''wrist'' ''raw'' [1, 2, 3], Packet ''wrist'' ''raw'' good_payload] full_wrist
              = Inr st'
            \<and> buffer st' ''wrist'' = Some [still 2, still 3, still 1]"
    by auto
  from a b c show ?thesis by blast
qed

end
